theory Spec2Isabelle
  imports
    Complex_Main
    "HOL-Library.Char_ord"
    "HOL-Library.List_Lexorder"
    "HOL-Library.Product_Lexorder"
begin

section \<open>AirAware: bounding boxes, sensor retrieval, daily aggregation, weather rows\<close>

text \<open>
  The Python tools of the repository, embedded as HOL functions. A finite Python float is
  the \<^typ>\<open>real\<close> it denotes (infinities and NaN are left out); the float operations of
  the box expansion are parameters, the mean of a group and the centre of a weather box are
  computed without rounding; exceptions are values of \<open>exn\<close> on the left of a sum; the
  remote services (geocoder, site registry, object archive) and the library parsers are
  fields of explicit records that the functions receive.
\<close>

datatype exn =
  ValueError | IndexError | KeyError | ZeroDivisionError | UnboundLocalError
  | RequestException | ClientError

text \<open>Sequencing of two steps either of which may raise.\<close>

definition and_then :: "exn + 'a \<Rightarrow> ('a \<Rightarrow> exn + 'b) \<Rightarrow> exn + 'b" where
  "and_then m f = (case m of Inl e \<Rightarrow> Inl e | Inr x \<Rightarrow> f x)"

text \<open>Python's \<open>xs[i]\<close> for a non-negative literal index: out of range raises.\<close>

definition index :: "'a list \<Rightarrow> nat \<Rightarrow> exn + 'a" where
  "index xs i = (if i < length xs then Inr (xs ! i) else Inl IndexError)"

subsection \<open>bounding\_box\_extractor\_tool.py\<close>

text \<open>
  A Python float is taken as the real number it denotes. The operations on floats are
  those of the platform: each rounds its result, and \<open>math.cos\<close> and \<open>math.radians\<close> are
  library functions. They are the fields of a record that the functions receive, so that
  nothing is assumed about how they round.
\<close>

record arith =
  float_add :: "real \<Rightarrow> real \<Rightarrow> real"
  float_sub :: "real \<Rightarrow> real \<Rightarrow> real"
  float_mul :: "real \<Rightarrow> real \<Rightarrow> real"
  float_div :: "real \<Rightarrow> real \<Rightarrow> real"
  math_cos :: "real \<Rightarrow> real"
  math_radians :: "real \<Rightarrow> real"

text \<open>The arithmetic that does not round, for concrete examples.\<close>

definition exact_arith :: arith where
  "exact_arith =
     \<lparr>float_add = (\<lambda>a b. a + b), float_sub = (\<lambda>a b. a - b), float_mul = (\<lambda>a b. a * b),
      float_div = (\<lambda>a b. a / b), math_cos = cos, math_radians = (\<lambda>x. x * pi / 180)\<rparr>"

text \<open>Python's true division: a divisor equal to zero raises.\<close>

definition truediv :: "arith \<Rightarrow> real \<Rightarrow> real \<Rightarrow> exn + real" where
  "truediv F a b = (if b = 0 then Inl ZeroDivisionError else Inr (float_div F a b))"

text \<open>
  \<^verbatim>\<open>_expand_bounding_box(self, south_lat, west_lon, north_lat, east_lon, km_expansion=50)\<close>.
  The divisors 111 of \<open>lat_offset\<close> and 2 of the mean latitude are literals; the divisor of
  \<open>lon_offset\<close> is computed.
\<close>

definition expand_bounding_box :: "arith \<Rightarrow> real \<Rightarrow> real \<Rightarrow> real \<Rightarrow> real \<Rightarrow> real \<Rightarrow> exn + real list" where
  "expand_bounding_box F south_lat west_lon north_lat east_lon km_expansion =
     (let lat_offset = float_div F km_expansion 111 in
      and_then
        (truediv F km_expansion
           (float_mul F 111
              (math_cos F (math_radians F (float_div F (float_add F south_lat north_lat) 2)))))
        (\<lambda>lon_offset.
          Inr [float_sub F south_lat lat_offset, float_sub F west_lon lon_offset,
               float_add F north_lat lat_offset, float_add F east_lon lon_offset]))"

text \<open>
  The geocoder's answer as \<open>_run\<close> sees it: the request raised, or a list of results, each
  with its \<open>boundingbox\<close> list of strings. \<open>pyfloat\<close> is Python's \<open>float(str)\<close>
  (\<open>None\<close>: ValueError).
\<close>

record geo_result =
  boundingbox :: "string list"

datatype bbox_out = Box "real list" | NotFound string | FetchError string

definition float_at :: "(string \<Rightarrow> real option) \<Rightarrow> string list \<Rightarrow> nat \<Rightarrow> exn + real" where
  "float_at pyfloat bbox i =
     and_then (index bbox i)
       (\<lambda>s. case pyfloat s of None \<Rightarrow> Inl ValueError | Some x \<Rightarrow> Inr x)"

text \<open>
  \<^verbatim>\<open>BoundingBoxExtractorTool._run(self, location)\<close>: only a RequestException is caught;
  the geocoder's order is south, north, west, east.
\<close>

definition first_box :: "arith \<Rightarrow> (string \<Rightarrow> real option) \<Rightarrow> geo_result \<Rightarrow> exn + bbox_out" where
  "first_box F pyfloat first =
     and_then (float_at pyfloat (boundingbox first) 0) (\<lambda>south_lat.
     and_then (float_at pyfloat (boundingbox first) 1) (\<lambda>north_lat.
     and_then (float_at pyfloat (boundingbox first) 2) (\<lambda>west_lon.
     and_then (float_at pyfloat (boundingbox first) 3) (\<lambda>east_lon.
     and_then (expand_bounding_box F south_lat west_lon north_lat east_lon 15) (\<lambda>expanded_bbox.
     Inr (Box expanded_bbox))))))"

definition bounding_box_run ::
  "arith \<Rightarrow> (string \<Rightarrow> real option) \<Rightarrow> (string \<Rightarrow> exn + geo_result list) \<Rightarrow> string \<Rightarrow>
   exn + bbox_out" where
  "bounding_box_run F pyfloat geocoder location =
     (case geocoder location of
        Inl e \<Rightarrow> (if e = RequestException then Inr (FetchError location) else Inl e)
      | Inr data \<Rightarrow>
          (case data of
             [] \<Rightarrow> Inr (NotFound location)
           | first # _ \<Rightarrow> first_box F pyfloat first))"

subsection \<open>input\_parser\_tool.py\<close>

text \<open>
  \<^verbatim>\<open>InputParserTool._run\<close> returns a string: one of three literal error messages, or
  \<open>Validated Input:\<close> followed by the summary dictionary, kept here as its four entries.
  Strings compare as Python's do, lexicographically by character code.
\<close>

datatype parser_out = Message string | ValidatedInput "string list" string string "string list"

definition input_parser_run :: "string list \<Rightarrow> string \<Rightarrow> string \<Rightarrow> string list \<Rightarrow> parser_out" where
  "input_parser_run locations start_date end_date aq_parameters =
     (if locations = [] then Message ''Error: At least one location must be specified.''
      else if aq_parameters = [] then
        Message ''Error: At least one air quality parameter must be specified.''
      else if start_date \<ge> end_date then
        Message ''Error: The start date must be before the end date.''
      else ValidatedInput locations start_date end_date aq_parameters)"

subsection \<open>weather\_tools.py\<close>

text \<open>
  A value of a JSON array of the archive's answer; the \<open>daily\<close> section is a dictionary
  from metric names to arrays.
\<close>

datatype json = JNum real | JStr string | JNull

type_synonym daily = "string \<rightharpoonup> json list"

definition dict_get :: "('k \<rightharpoonup> 'v) \<Rightarrow> 'k \<Rightarrow> 'v \<Rightarrow> 'v" where
  "dict_get d k dflt = (case d k of None \<Rightarrow> dflt | Some v \<Rightarrow> v)"

record summary =
  date :: json
  temperature_mean_2m :: json
  temperature_max_2m :: json
  temperature_min_2m :: json
  precipitation_sum :: json
  wind_speed_10m_mean :: json
  relative_humidity_2m_mean :: json

text \<open>\<^verbatim>\<open>arr[i] if i < len(arr) else "N/A"\<close>\<close>

definition metric_or_na :: "json list \<Rightarrow> nat \<Rightarrow> exn + json" where
  "metric_or_na arr i = (if i < length arr then index arr i else Inr (JStr ''N/A''))"

definition summary_at :: "daily \<Rightarrow> nat \<Rightarrow> exn + summary" where
  "summary_at daily_data i =
     and_then (index (dict_get daily_data ''time'' []) i) (\<lambda>d.
     and_then (metric_or_na (dict_get daily_data ''temperature_2m_mean'' []) i) (\<lambda>tmean.
     and_then (metric_or_na (dict_get daily_data ''temperature_2m_max'' []) i) (\<lambda>tmax.
     and_then (metric_or_na (dict_get daily_data ''temperature_2m_min'' []) i) (\<lambda>tmin.
     and_then (metric_or_na (dict_get daily_data ''precipitation_sum'' []) i) (\<lambda>prec.
     and_then (metric_or_na (dict_get daily_data ''wind_speed_10m_mean'' []) i) (\<lambda>wind.
     and_then (metric_or_na (dict_get daily_data ''relative_humidity_2m_mean'' []) i) (\<lambda>hum.
     Inr \<lparr>date = d, temperature_mean_2m = tmean, temperature_max_2m = tmax,
          temperature_min_2m = tmin, precipitation_sum = prec,
          wind_speed_10m_mean = wind, relative_humidity_2m_mean = hum\<rparr>)))))))"

text \<open>The loop \<^verbatim>\<open>for i in range(len(times)): ... weather_summary.append(summary)\<close>.\<close>

fun summary_loop :: "daily \<Rightarrow> nat list \<Rightarrow> summary list \<Rightarrow> exn + summary list" where
  "summary_loop daily_data [] weather_summary = Inr weather_summary"
| "summary_loop daily_data (i # rest) weather_summary =
     and_then (summary_at daily_data i)
       (\<lambda>s. summary_loop daily_data rest (weather_summary @ [s]))"

definition weather_summary_of :: "daily \<Rightarrow> exn + summary list" where
  "weather_summary_of daily_data =
     summary_loop daily_data [0 ..< length (dict_get daily_data ''time'' [])] []"

datatype weather_out =
  BadBoundingBox | NoDailyData | Summaries "summary list" | WeatherFetchError | Unexpected exn

text \<open>
  \<^verbatim>\<open>HistoricalWeatherTool._run\<close>. The archive is queried at the centre of the box; its
  answer is the decoded JSON object or the exception of the request.
\<close>

definition weather_run ::
  "(real \<Rightarrow> real \<Rightarrow> string \<Rightarrow> string \<Rightarrow> exn + (string \<rightharpoonup> daily)) \<Rightarrow>
   real list \<Rightarrow> string \<Rightarrow> string \<Rightarrow> weather_out" where
  "weather_run archive_api bounding_box start_date end_date =
     (if length bounding_box \<noteq> 4 then BadBoundingBox
      else
        let south_lat = bounding_box ! 0; west_lon = bounding_box ! 1;
            north_lat = bounding_box ! 2; east_lon = bounding_box ! 3;
            center_latitude = (south_lat + north_lat) / 2;
            center_longitude = (west_lon + east_lon) / 2
        in case archive_api center_latitude center_longitude start_date end_date of
             Inl e \<Rightarrow> (if e = RequestException then WeatherFetchError else Unexpected e)
           | Inr data \<Rightarrow>
               (case data ''daily'' of
                  None \<Rightarrow> NoDailyData
                | Some daily_data \<Rightarrow>
                    (case weather_summary_of daily_data of
                       Inl e \<Rightarrow> Unexpected e
                     | Inr weather_summary \<Rightarrow> Summaries weather_summary)))"

subsection \<open>air\_quality\_analysis\_tool.py\<close>

text \<open>
  A row of a daily archive file, with the columns the tool reads. \<open>datetime\<close> is the
  parsed timestamp in seconds since the epoch, so that a calendar day is a block of 86400
  seconds; a date is the number of its day. The readings of the archive carry a value and
  a unit in every row.
\<close>

record reading =
  datetime :: int
  parameter :: string
  reading_value :: real
  units :: string

record daily_row =
  row_parameter :: string
  row_value :: real
  row_units :: string
  row_date :: int

record tagged_row = daily_row +
  row_location :: string

record 'r frame =
  columns :: "string list"
  rows :: "'r list"

text \<open>
  The collaborators of \<open>_run\<close>: \<open>strptime\<close> is \<^verbatim>\<open>datetime.strptime(s, "%Y-%m-%d").date()\<close>
  (\<open>None\<close>: ValueError), \<open>strftime\<close> formats a date with one directive, \<open>registry\<close> is the
  GET of \<open>get_location_ids\<close> with the site ids of its results, \<open>list_objects_v2\<close> answers
  with the keys under a prefix (\<open>None\<close>: no \<open>Contents\<close> entry), and \<open>read_csv_gz\<close> is
  \<open>get_object\<close>, \<open>GzipFile\<close> and \<open>read_csv\<close> on one key.
\<close>

record world =
  strptime :: "string \<Rightarrow> int option"
  strftime :: "int \<Rightarrow> string \<Rightarrow> string"
  registry :: "real list \<Rightarrow> exn + nat list"
  list_objects_v2 :: "string \<Rightarrow> exn + string list option"
  read_csv_gz :: "string \<Rightarrow> exn + reading list"

text \<open>Decimal rendering of a site id inside the f-string of the prefix.\<close>

function str_nat :: "nat \<Rightarrow> string" where
  "str_nat n =
     (if n < 10 then [''0123456789'' ! n]
      else str_nat (n div 10) @ [''0123456789'' ! (n mod 10)])"
  by pat_completeness auto
termination
  by (relation "measure (\<lambda>n. n)") auto

declare str_nat.simps [simp del]

definition endswith :: "string \<Rightarrow> string \<Rightarrow> bool" where
  "endswith key suffix =
     (length suffix \<le> length key \<and> drop (length key - length suffix) key = suffix)"

text \<open>\<^verbatim>\<open>pd.date_range(start=start_date, end=end_date)\<close>: every day from start to end, both included.\<close>

definition date_range :: "int \<Rightarrow> int \<Rightarrow> int list" where
  "date_range start_date end_date = [start_date .. end_date]"

text \<open>
  The loop over \<open>response['Contents']\<close> inside the \<open>try\<close>: an exception leaves the loop
  and keeps what was concatenated before it.
\<close>

fun download_keys :: "world \<Rightarrow> string \<Rightarrow> string list \<Rightarrow> reading list \<Rightarrow> reading list \<times> exn option" where
  "download_keys W suffix [] consolidated_df = (consolidated_df, None)"
| "download_keys W suffix (key # keys) consolidated_df =
     (if endswith key suffix then
        (case read_csv_gz W key of
           Inl e \<Rightarrow> (consolidated_df, Some e)
         | Inr daily_df \<Rightarrow> download_keys W suffix keys (consolidated_df @ daily_df))
      else download_keys W suffix keys consolidated_df)"

text \<open>
  The local state of \<open>fetch_sensor_data\<close>. The Python function returns
  \<open>consolidated_df\<close> alone; \<open>failed_locations\<close> is printed before the return when it is
  not empty. The model hands the whole state to the main loop, which uses the first field
  as the returned frame and records the print of the second in \<open>printed_failed\<close>.
\<close>

record fetch_state =
  consolidated_df :: "reading list"
  failed_locations :: "nat list"

text \<open>The body of the inner loop, for one site and one day.\<close>

definition fetch_unit :: "world \<Rightarrow> nat \<Rightarrow> int \<Rightarrow> fetch_state \<Rightarrow> fetch_state" where
  "fetch_unit W location_id d st =
     (let year = strftime W d ''%Y''; month = strftime W d ''%m''; day = strftime W d ''%d'';
          prefix = ''records/csv.gz/locationid='' @ str_nat location_id @ ''/year='' @ year
                   @ ''/month='' @ month @ ''/''
      in case list_objects_v2 W prefix of
           Inl e \<Rightarrow> st\<lparr>failed_locations := failed_locations st @ [location_id]\<rparr>
         | Inr None \<Rightarrow> st\<lparr>failed_locations := failed_locations st @ [location_id]\<rparr>
         | Inr (Some contents) \<Rightarrow>
             (case download_keys W (year @ month @ day @ ''.csv.gz'') contents (consolidated_df st) of
                (df, None) \<Rightarrow> st\<lparr>consolidated_df := df\<rparr>
              | (df, Some e) \<Rightarrow>
                  st\<lparr>consolidated_df := df,
                     failed_locations := failed_locations st @ [location_id]\<rparr>))"

fun date_loop :: "world \<Rightarrow> nat \<Rightarrow> int list \<Rightarrow> fetch_state \<Rightarrow> fetch_state" where
  "date_loop W location_id [] st = st"
| "date_loop W location_id (d # ds) st = date_loop W location_id ds (fetch_unit W location_id d st)"

fun location_loop :: "world \<Rightarrow> nat list \<Rightarrow> int list \<Rightarrow> fetch_state \<Rightarrow> fetch_state" where
  "location_loop W [] ds st = st"
| "location_loop W (location_id # ids) ds st =
     location_loop W ids ds (date_loop W location_id ds st)"

definition fetch_sensor_data :: "world \<Rightarrow> nat list \<Rightarrow> int \<Rightarrow> int \<Rightarrow> fetch_state" where
  "fetch_sensor_data W location_ids start_date end_date =
     location_loop W location_ids (date_range start_date end_date)
       \<lparr>consolidated_df = [], failed_locations = []\<rparr>"

text \<open>
  \<open>aggregate_data\<close>. \<open>if parameters:\<close> is false for \<open>None\<close> and for the empty list. The
  groups of \<open>groupby\<close> are the observed pairs of parameter and day, in sorted order;
  \<open>mean\<close> and \<open>first\<close> have no result on an empty column, and \<open>dropna\<close> removes the rows
  with a missing cell. The columns of the result are the group keys and the two named
  aggregations, \<open>parameter, datetime, value, units\<close>; \<open>date\<close> is added at the end and
  \<open>datetime\<close> deleted.
\<close>

definition isin_filter :: "string list option \<Rightarrow> reading list \<Rightarrow> reading list" where
  "isin_filter parameters df =
     (case parameters of
        None \<Rightarrow> df
      | Some ps \<Rightarrow> (if ps = [] then df else filter (\<lambda>r. parameter r \<in> set ps) df))"

definition day_floor :: "int \<Rightarrow> int" where
  "day_floor t = (t div 86400) * 86400"

definition dt_date :: "int \<Rightarrow> int" where
  "dt_date t = t div 86400"

definition group_key :: "reading \<Rightarrow> string \<times> int" where
  "group_key r = (parameter r, day_floor (datetime r))"

definition group_keys :: "reading list \<Rightarrow> (string \<times> int) list" where
  "group_keys df = sort (remdups (map group_key df))"

definition group_of :: "reading list \<Rightarrow> string \<times> int \<Rightarrow> reading list" where
  "group_of df k = filter (\<lambda>r. group_key r = k) df"

definition mean :: "real list \<Rightarrow> real option" where
  "mean xs = (if xs = [] then None else Some (sum_list xs / real (length xs)))"

definition first :: "'a list \<Rightarrow> 'a option" where
  "first xs = (case xs of [] \<Rightarrow> None | x # _ \<Rightarrow> Some x)"

text \<open>One row of \<open>agg\<close>, kept by \<open>dropna\<close> when both cells are present, with its \<open>date\<close>.\<close>

definition agg_row :: "reading list \<Rightarrow> string \<times> int \<Rightarrow> daily_row option" where
  "agg_row df k =
     (case (mean (map reading_value (group_of df k)), first (map units (group_of df k))) of
        (Some v, Some u) \<Rightarrow>
          Some \<lparr>row_parameter = fst k, row_value = v, row_units = u, row_date = dt_date (snd k)\<rparr>
      | _ \<Rightarrow> None)"

definition aggregate_data :: "reading list \<Rightarrow> string list option \<Rightarrow> daily_row frame" where
  "aggregate_data df parameters =
     (let df = isin_filter parameters df in
      \<lparr>columns = [''parameter'', ''value'', ''units'', ''date''],
       rows = List.map_filter (agg_row df) (group_keys df)\<rparr>)"

text \<open>\<^verbatim>\<open>aggregated_daily_data["location"] = location\<close>\<close>

definition tag :: "string \<Rightarrow> daily_row \<Rightarrow> tagged_row" where
  "tag location r = daily_row.extend r \<lparr>row_location = location\<rparr>"

definition set_location :: "string \<Rightarrow> daily_row frame \<Rightarrow> tagged_row frame" where
  "set_location location f =
     \<lparr>columns = (if ''location'' \<in> set (columns f) then columns f
                 else columns f @ [''location'']),
      rows = map (tag location) (rows f)\<rparr>"

text \<open>\<^verbatim>\<open>pd.concat(all_data, ignore_index=True)\<close>: the columns in order of first appearance.\<close>

fun union_columns :: "string list \<Rightarrow> string list \<Rightarrow> string list" where
  "union_columns acc [] = acc"
| "union_columns acc (c # cs) = union_columns (if c \<in> set acc then acc else acc @ [c]) cs"

definition pd_concat :: "'r frame list \<Rightarrow> 'r frame" where
  "pd_concat fs =
     \<lparr>columns = fold (\<lambda>f acc. union_columns acc (columns f)) fs [],
      rows = concat (map rows fs)\<rparr>"

text \<open>
  The state of the main workflow: \<open>all_data\<close>, and what it sent and printed: the boxes of
  the registry queries and the non-empty \<open>failed_locations\<close> lists.
\<close>

record run_state =
  all_data :: "tagged_row frame list"
  queries :: "real list list"
  printed_failed :: "nat list list"

definition bbox_openaq_format :: "real list \<Rightarrow> exn + real list" where
  "bbox_openaq_format bbox =
     and_then (index bbox 1) (\<lambda>b1.
     and_then (index bbox 0) (\<lambda>b0.
     and_then (index bbox 3) (\<lambda>b3.
     and_then (index bbox 2) (\<lambda>b2.
     Inr [b1, b0, b3, b2]))))"

text \<open>The body of the main loop for one pair; an exception is printed and the loop goes on.\<close>

definition process_location ::
  "world \<Rightarrow> int \<Rightarrow> int \<Rightarrow> string list option \<Rightarrow> real list \<times> string \<Rightarrow> run_state \<Rightarrow> run_state" where
  "process_location W start_date_dt end_date_dt aq_parameters p st =
     (case bbox_openaq_format (fst p) of
        Inl e \<Rightarrow> st
      | Inr b \<Rightarrow>
          (let st = st\<lparr>queries := queries st @ [b]\<rparr> in
           case registry W b of
             Inl e \<Rightarrow> st
           | Inr location_ids \<Rightarrow>
               (let fs = fetch_sensor_data W location_ids start_date_dt end_date_dt;
                    st = (if failed_locations fs \<noteq> []
                          then st\<lparr>printed_failed := printed_failed st @ [failed_locations fs]\<rparr>
                          else st)
                in if consolidated_df fs \<noteq> [] then
                     st\<lparr>all_data := all_data st @
                          [set_location (snd p) (aggregate_data (consolidated_df fs) aq_parameters)]\<rparr>
                   else st)))"

fun main_loop ::
  "world \<Rightarrow> int \<Rightarrow> int \<Rightarrow> string list option \<Rightarrow> (real list \<times> string) list \<Rightarrow> run_state \<Rightarrow> run_state" where
  "main_loop W s e ps [] st = st"
| "main_loop W s e ps (p # rest) st = main_loop W s e ps rest (process_location W s e ps p st)"

text \<open>
  \<open>AirQualityAnalysisTool._run\<close>: the returned frame, with the trace of the state. A date
  that does not parse raises ValueError before anything is fetched.
\<close>

record run_result =
  returned :: "tagged_row frame"
  trace :: run_state

definition air_quality_run ::
  "world \<Rightarrow> real list list \<Rightarrow> string list \<Rightarrow> string \<Rightarrow> string \<Rightarrow> string list option \<Rightarrow> exn + run_result" where
  "air_quality_run W bounding_boxes locations start_date end_date aq_parameters =
     (case strptime W start_date of
        None \<Rightarrow> Inl ValueError
      | Some start_date_dt \<Rightarrow>
          (case strptime W end_date of
             None \<Rightarrow> Inl ValueError
           | Some end_date_dt \<Rightarrow>
               (let st = main_loop W start_date_dt end_date_dt aq_parameters
                           (zip bounding_boxes locations)
                           \<lparr>all_data = [], queries = [], printed_failed = []\<rparr>
                in Inr \<lparr>returned =
                          (if all_data st \<noteq> [] then pd_concat (all_data st)
                           else \<lparr>columns = [''date'', ''parameter'', ''unit'', ''value'', ''location''],
                                 rows = []\<rparr>),
                        trace = st\<rparr>)))"

subsection \<open>Predicates of the specification\<close>

text \<open>
  The weather row the specification describes for position \<open>i\<close> of the time array: each
  metric is the entry of its array at \<open>i\<close>, or the marker \<open>N/A\<close> when the array is shorter
  (an absent array is the empty one).
\<close>

definition na_row :: "daily \<Rightarrow> nat \<Rightarrow> summary" where
  "na_row daily_data i =
     (let cell = (\<lambda>k. if i < length (dict_get daily_data k []) then dict_get daily_data k [] ! i
                       else JStr ''N/A'')
      in \<lparr>date = dict_get daily_data ''time'' [] ! i,
          temperature_mean_2m = cell ''temperature_2m_mean'',
          temperature_max_2m = cell ''temperature_2m_max'',
          temperature_min_2m = cell ''temperature_2m_min'',
          precipitation_sum = cell ''precipitation_sum'',
          wind_speed_10m_mean = cell ''wind_speed_10m_mean'',
          relative_humidity_2m_mean = cell ''relative_humidity_2m_mean''\<rparr>)"

text \<open>
  The calendar day of a reading, the readings of one parameter on one day, in the order of
  the collection, and the row that repeats one reading.
\<close>

definition day_key :: "reading \<Rightarrow> string \<times> int" where
  "day_key r = (parameter r, datetime r div 86400)"

definition day_group :: "reading list \<Rightarrow> string \<Rightarrow> int \<Rightarrow> reading list" where
  "day_group df p d = filter (\<lambda>r. parameter r = p \<and> datetime r div 86400 = d) df"

definition daily_of :: "reading \<Rightarrow> daily_row" where
  "daily_of r =
     \<lparr>row_parameter = parameter r, row_value = reading_value r, row_units = units r,
      row_date = datetime r div 86400\<rparr>"

definition triple :: "tagged_row \<Rightarrow> string \<times> int \<times> string" where
  "triple r = (row_location r, row_date r, row_parameter r)"

text \<open>The row of the group that a reading belongs to: mean value, unit of the first reading.\<close>

definition group_row :: "reading list \<Rightarrow> reading \<Rightarrow> daily_row" where
  "group_row df r =
     (let g = day_group df (parameter r) (datetime r div 86400) in
      \<lparr>row_parameter = parameter r, row_value = sum_list (map reading_value g) / real (length g),
       row_units = units (hd g), row_date = datetime r div 86400\<rparr>)"

subsection \<open>The loops, one pass at a time\<close>

text \<open>
  What one pass of the main loop appends to \<open>all_data\<close> and what it sends to the registry;
  what one site and day contributes to the two lists of \<open>fetch_sensor_data\<close>.
\<close>

definition produced :: "world \<Rightarrow> int \<Rightarrow> int \<Rightarrow> string list option \<Rightarrow> real list \<times> string \<Rightarrow> tagged_row frame list" where
  "produced W s e ps p =
     (case bbox_openaq_format (fst p) of
        Inl x \<Rightarrow> []
      | Inr b \<Rightarrow>
          (case registry W b of
             Inl x \<Rightarrow> []
           | Inr location_ids \<Rightarrow>
               (let fs = fetch_sensor_data W location_ids s e
                in if consolidated_df fs \<noteq> []
                   then [set_location (snd p) (aggregate_data (consolidated_df fs) ps)]
                   else [])))"


definition unit_data :: "world \<Rightarrow> nat \<times> int \<Rightarrow> reading list" where
  "unit_data W u = consolidated_df (fetch_unit W (fst u) (snd u) \<lparr>consolidated_df = [], failed_locations = []\<rparr>)"

definition unit_failed :: "world \<Rightarrow> nat \<times> int \<Rightarrow> nat list" where
  "unit_failed W u = failed_locations (fetch_unit W (fst u) (snd u) \<lparr>consolidated_df = [], failed_locations = []\<rparr>)"

text \<open>
  What one unit of site and day is, stated on the archive: the prefix that is listed and
  the suffix of the day's files; the rows of the unit are those of the day's files in the
  order of the listing, up to the first file that cannot be read; the unit fails when the
  listing raises, has no \<open>Contents\<close>, or one of the day's files cannot be read.
\<close>

definition archive_prefix :: "world \<Rightarrow> nat \<Rightarrow> int \<Rightarrow> string" where
  "archive_prefix W location_id d =
     ''records/csv.gz/locationid='' @ str_nat location_id @ ''/year='' @ strftime W d ''%Y''
       @ ''/month='' @ strftime W d ''%m'' @ ''/''"

definition archive_suffix :: "world \<Rightarrow> int \<Rightarrow> string" where
  "archive_suffix W d = strftime W d ''%Y'' @ strftime W d ''%m'' @ strftime W d ''%d'' @ ''.csv.gz''"

definition readable :: "world \<Rightarrow> string \<Rightarrow> bool" where
  "readable W key = (case read_csv_gz W key of Inl e \<Rightarrow> False | Inr daily_df \<Rightarrow> True)"

definition file_rows :: "world \<Rightarrow> string \<Rightarrow> reading list" where
  "file_rows W key = (case read_csv_gz W key of Inl e \<Rightarrow> [] | Inr daily_df \<Rightarrow> daily_df)"

definition day_files :: "world \<Rightarrow> int \<Rightarrow> string list \<Rightarrow> string list" where
  "day_files W d contents = filter (\<lambda>key. endswith key (archive_suffix W d)) contents"

definition unit_rows :: "world \<Rightarrow> nat \<Rightarrow> int \<Rightarrow> reading list" where
  "unit_rows W location_id d =
     (case list_objects_v2 W (archive_prefix W location_id d) of
        Inl e \<Rightarrow> []
      | Inr None \<Rightarrow> []
      | Inr (Some contents) \<Rightarrow>
          concat (map (file_rows W) (takeWhile (readable W) (day_files W d contents))))"

definition unit_fails :: "world \<Rightarrow> nat \<Rightarrow> int \<Rightarrow> bool" where
  "unit_fails W location_id d =
     (case list_objects_v2 W (archive_prefix W location_id d) of
        Inl e \<Rightarrow> True
      | Inr None \<Rightarrow> True
      | Inr (Some contents) \<Rightarrow> list_ex (\<lambda>key. \<not> readable W key) (day_files W d contents))"

subsection \<open>A concrete archive\<close>

text \<open>
  One site, number 7, with one file for 2023-01-01 (day 19358) that holds one pm25 reading.
\<close>

definition example_reading :: reading where
  "example_reading = \<lparr>datetime = 1672531200, parameter = ''pm25'', reading_value = 10, units = ''ug/m3''\<rparr>"

definition example_world :: world where
  "example_world =
     \<lparr>strptime = (\<lambda>s. if s = ''2023-01-01'' then Some 19358 else None),
      strftime = (\<lambda>d f. if d = 19358 then (if f = ''%Y'' then ''2023'' else ''01'') else ''''),
      registry = (\<lambda>b. Inr [7]),
      list_objects_v2 = (\<lambda>p.
        if p = ''records/csv.gz/locationid=7/year=2023/month=01/''
        then Inr (Some [''records/csv.gz/locationid=7/year=2023/month=01/location-7-20230101.csv.gz''])
        else Inr None),
      read_csv_gz = (\<lambda>k. Inr [example_reading])\<rparr>"

section \<open>Properties\<close>

lemma and_then_Inr [simp]: "and_then (Inr x) f = f x"
  by (simp add: and_then_def)

lemma and_then_Inl [simp]: "and_then (Inl e) f = Inl e"
  by (simp add: and_then_def)

subsection \<open>Expansion of a bounding box\<close>

lemma expand_bounding_box_cases:
  "expand_bounding_box F s w n e m =
     (if float_mul F 111 (math_cos F (math_radians F (float_div F (float_add F s n) 2))) = 0
      then Inl ZeroDivisionError
      else Inr [float_sub F s (float_div F m 111),
                float_sub F w (float_div F m
                  (float_mul F 111 (math_cos F (math_radians F (float_div F (float_add F s n) 2))))),
                float_add F n (float_div F m 111),
                float_add F e (float_div F m
                  (float_mul F 111 (math_cos F (math_radians F (float_div F (float_add F s n) 2)))))])"
  by (simp add: expand_bounding_box_def truediv_def Let_def)

lemma float_at_nth:
  "i < length bbox \<Longrightarrow> pyfloat (bbox ! i) = Some x \<Longrightarrow> float_at pyfloat bbox i = Inr x"
  by (simp add: float_at_def index_def)

text \<open>
  C1. For a base box (s, w, n, e) and a margin of m km, the expansion returns
  [s - m/111, w - d, n + m/111, e + d] with d = m / (111 * cos (radians ((s + n) / 2))),
  every operation being the one of the floats, and \<open>_run\<close> calls it with m = 15 on the
  geocoder's first box, which arrives in the order south, north, west, east. The one
  other outcome that Python's division has is the ZeroDivisionError of a divisor
  111 * cos (...) that is the float zero.
\<close>

theorem expand_bounding_box_formula:
  "expand_bounding_box F s w n e m =
     (if float_mul F 111 (math_cos F (math_radians F (float_div F (float_add F s n) 2))) = 0
      then Inl ZeroDivisionError
      else Inr [float_sub F s (float_div F m 111),
                float_sub F w (float_div F m
                  (float_mul F 111 (math_cos F (math_radians F (float_div F (float_add F s n) 2))))),
                float_add F n (float_div F m 111),
                float_add F e (float_div F m
                  (float_mul F 111 (math_cos F (math_radians F (float_div F (float_add F s n) 2)))))])
   \<and> (geocoder location = Inr (\<lparr>boundingbox = [b0, b1, b2, b3]\<rparr> # others) \<longrightarrow>
      pyfloat b0 = Some s \<longrightarrow> pyfloat b1 = Some n \<longrightarrow>
      pyfloat b2 = Some w \<longrightarrow> pyfloat b3 = Some e \<longrightarrow>
      bounding_box_run F pyfloat geocoder location =
        (case expand_bounding_box F s w n e 15 of
           Inl x \<Rightarrow> Inl x
         | Inr expanded_bbox \<Rightarrow> Inr (Box expanded_bbox)))"
proof (intro conjI impI)
  show "expand_bounding_box F s w n e m =
     (if float_mul F 111 (math_cos F (math_radians F (float_div F (float_add F s n) 2))) = 0
      then Inl ZeroDivisionError
      else Inr [float_sub F s (float_div F m 111),
                float_sub F w (float_div F m
                  (float_mul F 111 (math_cos F (math_radians F (float_div F (float_add F s n) 2))))),
                float_add F n (float_div F m 111),
                float_add F e (float_div F m
                  (float_mul F 111 (math_cos F (math_radians F (float_div F (float_add F s n) 2)))))])"
    by (rule expand_bounding_box_cases)
next
  assume "geocoder location = Inr (\<lparr>boundingbox = [b0, b1, b2, b3]\<rparr> # others)"
    and "pyfloat b0 = Some s" and "pyfloat b1 = Some n"
    and "pyfloat b2 = Some w" and "pyfloat b3 = Some e"
  then show "bounding_box_run F pyfloat geocoder location =
        (case expand_bounding_box F s w n e 15 of
           Inl x \<Rightarrow> Inl x
         | Inr expanded_bbox \<Rightarrow> Inr (Box expanded_bbox))"
    by (simp add: bounding_box_run_def first_box_def float_at_nth and_then_def)
qed

theorem expand_bounding_box_formula_witness:
  "expand_bounding_box exact_arith (- 10) 70 10 80 111 = Inr [- 11, 69, 11, 81] \<and>
   bounding_box_run exact_arith
     (\<lambda>s. if s = ''-10'' then Some (- 10) else if s = ''10'' then Some 10
          else if s = ''70'' then Some 70 else if s = ''80'' then Some 80 else None)
     (\<lambda>l. Inr [\<lparr>boundingbox = [''-10'', ''10'', ''70'', ''80'']\<rparr>]) ''Quito'' =
     Inr (Box [- 10 - 15 / 111, 70 - 15 / 111, 10 + 15 / 111, 80 + 15 / 111])"
  using expand_bounding_box_formula [where F = exact_arith
      and s = "- 10" and n = 10 and w = 70 and e = 80 and m = 111
      and geocoder = "\<lambda>l. Inr [\<lparr>boundingbox = [''-10'', ''10'', ''70'', ''80'']\<rparr>]"
      and location = "''Quito''" and others = "[]"
      and ?b0.0 = "''-10''" and ?b1.0 = "''10''" and ?b2.0 = "''70''" and ?b3.0 = "''80''"
      and pyfloat = "\<lambda>s. if s = ''-10'' then Some (- 10) else if s = ''10'' then Some 10
          else if s = ''70'' then Some 70 else if s = ''80'' then Some 80 else None"]
  by (simp add: exact_arith_def expand_bounding_box_cases)

subsection \<open>Input parser\<close>

lemma date_range_single: "date_range d d = [d]"
  by (simp add: date_range_def upto.simps)

text \<open>
  C10, as stated: every input whose start date is not lexicographically before its end
  date gets the message about the dates. With no location the parser answers with the
  message about locations instead, whatever the dates are.
\<close>

theorem input_parser_dates_counterexample:
  "''2023-01-02'' \<ge> ''2023-01-01'' \<and>
   input_parser_run [] ''2023-01-02'' ''2023-01-01'' [''pm25''] =
     Message ''Error: At least one location must be specified.'' \<and>
   input_parser_run [] ''2023-01-02'' ''2023-01-01'' [''pm25''] \<noteq>
     Message ''Error: The start date must be before the end date.''"
  by (simp add: input_parser_run_def)

text \<open>
  C10, amended: for every input with at least one location and at least one parameter
  whose start date is lexicographically greater than or equal to its end date (the same
  day included), the parser returns the message that the start date must be before the
  end date; the analysis itself takes a range of one day: \<open>date_range d d\<close> is the one
  day \<open>d\<close>, and \<open>_run\<close> with equal dates that parse returns a frame.
\<close>

theorem input_parser_rejects_dates:
  assumes "locations \<noteq> []" "aq_parameters \<noteq> []" "start_date \<ge> end_date"
  shows "input_parser_run locations start_date end_date aq_parameters =
           Message ''Error: The start date must be before the end date.''
         \<and> date_range d d = [d]
         \<and> (strptime W sd = Some d \<longrightarrow>
              (\<exists>r. air_quality_run W bounding_boxes locations sd sd ps = Inr r))"
  using assms by (simp add: input_parser_run_def date_range_single air_quality_run_def Let_def)

theorem input_parser_rejects_dates_witness:
  "[''Delhi''] \<noteq> [] \<and> [''pm25''] \<noteq> [] \<and> ''2023-01-01'' \<ge> ''2023-01-01'' \<and>
   input_parser_run [''Delhi''] ''2023-01-01'' ''2023-01-01'' [''pm25''] =
     Message ''Error: The start date must be before the end date.'' \<and>
   date_range 19358 19358 = [19358] \<and>
   (\<exists>r. air_quality_run
      \<lparr>strptime = (\<lambda>s. if s = ''2023-01-01'' then Some 19358 else None),
       strftime = (\<lambda>d f. ''''), registry = (\<lambda>b. Inr []),
       list_objects_v2 = (\<lambda>p. Inr None), read_csv_gz = (\<lambda>k. Inr [])\<rparr>
      [[20, 70, 30, 80]] [''Delhi''] ''2023-01-01'' ''2023-01-01'' (Some [''pm25'']) = Inr r)"
  using input_parser_rejects_dates [of "[''Delhi'']" "[''pm25'']" "''2023-01-01''" "''2023-01-01''" 19358
      "\<lparr>strptime = (\<lambda>s. if s = ''2023-01-01'' then Some 19358 else None),
       strftime = (\<lambda>d f. ''''), registry = (\<lambda>b. Inr []),
       list_objects_v2 = (\<lambda>p. Inr None), read_csv_gz = (\<lambda>k. Inr [])\<rparr>" "''2023-01-01''"
      "[[20, 70, 30, 80]]" "Some [''pm25'']"]
  by simp

subsection \<open>Weather summary\<close>

lemma metric_or_na_eq:
  "metric_or_na arr i = Inr (if i < length arr then arr ! i else JStr ''N/A'')"
  by (simp add: metric_or_na_def index_def)

lemma summary_at_in_range:
  "i < length (dict_get daily_data ''time'' []) \<Longrightarrow> summary_at daily_data i = Inr (na_row daily_data i)"
  by (simp add: summary_at_def metric_or_na_eq index_def na_row_def)

lemma summary_loop_in_range:
  "\<forall>i \<in> set js. i < length (dict_get daily_data ''time'' []) \<Longrightarrow>
   summary_loop daily_data js acc = Inr (acc @ map (na_row daily_data) js)"
  by (induction js arbitrary: acc) (simp_all add: summary_at_in_range)

text \<open>
  C8. When the daily section is present, the summary has one row for each entry of the
  time array, in order; a metric whose array is shorter than the time array gives \<open>N/A\<close>
  in the rows past its end; no index leaves its array (the construction returns its rows,
  not IndexError), and \<open>_run\<close> returns these rows.
\<close>

theorem weather_summary_rows:
  "weather_summary_of daily_data =
     Inr (map (na_row daily_data) [0 ..< length (dict_get daily_data ''time'' [])])
   \<and> (length bounding_box = 4 \<longrightarrow>
      archive_api ((bounding_box ! 0 + bounding_box ! 2) / 2)
                  ((bounding_box ! 1 + bounding_box ! 3) / 2) start_date end_date = Inr data \<longrightarrow>
      data ''daily'' = Some daily_data \<longrightarrow>
      weather_run archive_api bounding_box start_date end_date =
        Summaries (map (na_row daily_data) [0 ..< length (dict_get daily_data ''time'' [])]))"
proof -
  have "weather_summary_of daily_data =
     Inr (map (na_row daily_data) [0 ..< length (dict_get daily_data ''time'' [])])"
    unfolding weather_summary_of_def by (subst summary_loop_in_range) simp_all
  then show ?thesis by (simp add: weather_run_def Let_def)
qed

theorem weather_summary_rows_witness:
  "weather_run
     (\<lambda>lat lon s e. Inr [''daily'' \<mapsto>
        [''time'' \<mapsto> [JStr ''2023-01-01'', JStr ''2023-01-02''],
         ''temperature_2m_mean'' \<mapsto> [JNum 21],
         ''precipitation_sum'' \<mapsto> [JNum 0, JNum 3]]])
     [20, 70, 30, 80] ''2023-01-01'' ''2023-01-02'' =
   Summaries
     [\<lparr>date = JStr ''2023-01-01'', temperature_mean_2m = JNum 21,
       temperature_max_2m = JStr ''N/A'', temperature_min_2m = JStr ''N/A'',
       precipitation_sum = JNum 0, wind_speed_10m_mean = JStr ''N/A'',
       relative_humidity_2m_mean = JStr ''N/A''\<rparr>,
      \<lparr>date = JStr ''2023-01-02'', temperature_mean_2m = JStr ''N/A'',
       temperature_max_2m = JStr ''N/A'', temperature_min_2m = JStr ''N/A'',
       precipitation_sum = JNum 3, wind_speed_10m_mean = JStr ''N/A'',
       relative_humidity_2m_mean = JStr ''N/A''\<rparr>]"
  using weather_summary_rows [of "[''time'' \<mapsto> [JStr ''2023-01-01'', JStr ''2023-01-02''],
         ''temperature_2m_mean'' \<mapsto> [JNum 21],
         ''precipitation_sum'' \<mapsto> [JNum 0, JNum 3]]" "[20, 70, 30, 80]"
      "(\<lambda>lat lon s e. Inr [''daily'' \<mapsto>
        [''time'' \<mapsto> [JStr ''2023-01-01'', JStr ''2023-01-02''],
         ''temperature_2m_mean'' \<mapsto> [JNum 21],
         ''precipitation_sum'' \<mapsto> [JNum 0, JNum 3]]])" "''2023-01-01''" "''2023-01-02''"]
  by (simp add: na_row_def dict_get_def upt_conv_Cons)

subsection \<open>Aggregation and the main workflow\<close>

lemma day_floor_eq_iff: "day_floor a = day_floor b \<longleftrightarrow> a div 86400 = b div 86400"
  by (simp add: day_floor_def)

lemma dt_date_day_floor: "dt_date (day_floor t) = t div 86400"
  by (simp add: dt_date_def day_floor_def)

lemma group_key_eq_iff: "group_key r = group_key r' \<longleftrightarrow> day_key r = day_key r'"
  by (simp add: group_key_def day_key_def day_floor_eq_iff)

lemma set_group_keys: "set (group_keys df) = group_key ` set df"
  by (simp add: group_keys_def)

lemma distinct_group_keys: "distinct (group_keys df)"
  by (simp add: group_keys_def)

lemma sorted_group_keys: "sorted (group_keys df)"
  by (simp add: group_keys_def)

lemma group_of_day_group:
  "group_of df (group_key r) = day_group df (parameter r) (datetime r div 86400)"
  unfolding group_of_def day_group_def
  by (rule filter_cong) (auto simp: group_key_def day_floor_eq_iff)

lemma group_of_nonempty: "r \<in> set df \<Longrightarrow> group_of df (group_key r) \<noteq> []"
  by (auto simp: group_of_def filter_empty_conv)

lemma agg_row_member:
  assumes "r \<in> set df"
  shows "agg_row df (group_key r) = Some (group_row df r)"
proof -
  have ne: "day_group df (parameter r) (datetime r div 86400) \<noteq> []"
    using group_of_nonempty [OF assms] by (simp add: group_of_day_group)
  then obtain x xs where g: "day_group df (parameter r) (datetime r div 86400) = x # xs"
    by (cases "day_group df (parameter r) (datetime r div 86400)") auto
  show ?thesis
    unfolding agg_row_def group_of_day_group group_row_def g
    by (simp add: mean_def first_def group_key_def dt_date_day_floor Let_def)
qed

lemma map_filter_all_Some:
  "\<forall>x \<in> set xs. f x = Some (g x) \<Longrightarrow> List.map_filter f xs = map g xs"
  by (induction xs) (simp_all add: List.map_filter_simps)

lemma rows_aggregate_data:
  "set (rows (aggregate_data df ps)) = group_row (isin_filter ps df) ` set (isin_filter ps df)"
proof -
  let ?df = "isin_filter ps df"
  have "set (List.map_filter (agg_row ?df) (group_keys ?df)) = group_row ?df ` set ?df"
  proof (intro set_eqI iffI)
    fix x assume "x \<in> set (List.map_filter (agg_row ?df) (group_keys ?df))"
    then obtain k where k: "k \<in> set (group_keys ?df)" "agg_row ?df k = Some x"
      by (auto simp: List.map_filter_def)
    then obtain r where "r \<in> set ?df" "k = group_key r" by (auto simp: set_group_keys)
    with k show "x \<in> group_row ?df ` set ?df" by (auto simp: agg_row_member)
  next
    fix x assume "x \<in> group_row ?df ` set ?df"
    then obtain r where r: "r \<in> set ?df" "x = group_row ?df r" by auto
    then have "group_key r \<in> set (group_keys ?df)" by (simp add: set_group_keys)
    moreover have "agg_row ?df (group_key r) = Some x" using r by (simp add: agg_row_member)
    ultimately show "x \<in> set (List.map_filter (agg_row ?df) (group_keys ?df))"
      by (force simp: List.map_filter_def)
  qed
  then show ?thesis by (simp add: aggregate_data_def Let_def)
qed

lemma agg_row_key:
  "agg_row df k = Some x \<Longrightarrow> (row_parameter x, row_date x) = (fst k, dt_date (snd k))"
  by (auto simp: agg_row_def split: option.splits)

lemma inj_on_key_date:
  "inj_on (\<lambda>k. (fst k, dt_date (snd k))) (set (group_keys df))"
  by (auto simp: inj_on_def set_group_keys group_key_def dt_date_day_floor day_floor_eq_iff)

lemma map_filter_keys:
  "\<forall>k \<in> set ks. \<forall>x. f k = Some x \<longrightarrow> h x = g k \<Longrightarrow>
   map h (List.map_filter f ks) = map g (filter (\<lambda>k. f k \<noteq> None) ks)"
  by (induction ks) (auto simp: List.map_filter_simps split: option.splits)

lemma keys_rows_aggregate_data:
  "map (\<lambda>x. (row_parameter x, row_date x)) (rows (aggregate_data df ps)) =
   map (\<lambda>k. (fst k, dt_date (snd k))) (group_keys (isin_filter ps df))"
proof -
  let ?df = "isin_filter ps df"
  have all: "\<forall>k \<in> set (group_keys ?df). agg_row ?df k \<noteq> None"
    by (auto simp: set_group_keys agg_row_member)
  have "map (\<lambda>x. (row_parameter x, row_date x)) (List.map_filter (agg_row ?df) (group_keys ?df)) =
        map (\<lambda>k. (fst k, dt_date (snd k))) (filter (\<lambda>k. agg_row ?df k \<noteq> None) (group_keys ?df))"
    by (rule map_filter_keys) (auto dest: agg_row_key)
  also have "filter (\<lambda>k. agg_row ?df k \<noteq> None) (group_keys ?df) = group_keys ?df"
    using all by (simp add: filter_id_conv)
  finally show ?thesis by (simp add: aggregate_data_def Let_def)
qed

lemma distinct_keys_rows:
  "distinct (map (\<lambda>x. (row_parameter x, row_date x)) (rows (aggregate_data df ps)))"
  unfolding keys_rows_aggregate_data
  by (simp add: distinct_map distinct_group_keys inj_on_key_date)

lemma set_keys_rows:
  "set (map (\<lambda>x. (row_parameter x, row_date x)) (rows (aggregate_data df ps))) =
   day_key ` set (isin_filter ps df)"
  unfolding keys_rows_aggregate_data
  by (force simp: set_group_keys group_key_def dt_date_day_floor day_key_def)

lemma group_row_facts:
  assumes "r \<in> set df"
  shows "day_group df (parameter r) (datetime r div 86400) \<noteq> []"
  using group_of_nonempty [OF assms] by (simp add: group_of_day_group)

text \<open>
  aggregate_data_groups. Aggregation has exactly one row for each pair of parameter and calendar day that
  occurs among the readings (after the allow-list, which \<open>None\<close> leaves out); the value
  of a row is the arithmetic mean of the values of its readings, its unit is the unit of
  the first of them in the order of the collection, whatever the units of the others are.
  Two pm25 readings of 10 and 20 on 2023-01-01 give the one row with value 15 and the
  unit of the first reading.
\<close>

theorem aggregate_data_groups:
  "distinct (map (\<lambda>x. (row_parameter x, row_date x)) (rows (aggregate_data df ps)))
   \<and> set (map (\<lambda>x. (row_parameter x, row_date x)) (rows (aggregate_data df ps))) =
       day_key ` set (isin_filter ps df)
   \<and> (\<forall>x \<in> set (rows (aggregate_data df ps)).
        day_group (isin_filter ps df) (row_parameter x) (row_date x) \<noteq> [] \<and>
        row_value x =
          sum_list (map reading_value (day_group (isin_filter ps df) (row_parameter x) (row_date x)))
          / real (length (day_group (isin_filter ps df) (row_parameter x) (row_date x))) \<and>
        row_units x = units (hd (day_group (isin_filter ps df) (row_parameter x) (row_date x))))
   \<and> isin_filter None df = df
   \<and> rows (aggregate_data
        [\<lparr>datetime = 1672531200, parameter = ''pm25'', reading_value = 10, units = u1\<rparr>,
         \<lparr>datetime = 1672574400, parameter = ''pm25'', reading_value = 20, units = u2\<rparr>] None) =
       [\<lparr>row_parameter = ''pm25'', row_value = 15, row_units = u1, row_date = 19358\<rparr>]"
proof (intro conjI ballI)
  show "distinct (map (\<lambda>x. (row_parameter x, row_date x)) (rows (aggregate_data df ps)))"
    by (rule distinct_keys_rows)
  show "set (map (\<lambda>x. (row_parameter x, row_date x)) (rows (aggregate_data df ps))) =
       day_key ` set (isin_filter ps df)"
    by (rule set_keys_rows)
  show "isin_filter None df = df" by (simp add: isin_filter_def)
  show "rows (aggregate_data
        [\<lparr>datetime = 1672531200, parameter = ''pm25'', reading_value = 10, units = u1\<rparr>,
         \<lparr>datetime = 1672574400, parameter = ''pm25'', reading_value = 20, units = u2\<rparr>] None) =
       [\<lparr>row_parameter = ''pm25'', row_value = 15, row_units = u1, row_date = 19358\<rparr>]"
    by (simp add: aggregate_data_def isin_filter_def group_keys_def group_key_def day_floor_def
        List.map_filter_simps agg_row_def group_of_def mean_def first_def dt_date_def)
next
  fix x assume "x \<in> set (rows (aggregate_data df ps))"
  then obtain r where r: "r \<in> set (isin_filter ps df)" "x = group_row (isin_filter ps df) r"
    unfolding rows_aggregate_data by auto
  have px: "row_parameter x = parameter r" "row_date x = datetime r div 86400"
    using r(2) by (simp_all add: group_row_def Let_def)
  show "day_group (isin_filter ps df) (row_parameter x) (row_date x) \<noteq> []"
    unfolding px using r(1) by (rule group_row_facts)
  show "row_value x =
          sum_list (map reading_value (day_group (isin_filter ps df) (row_parameter x) (row_date x)))
          / real (length (day_group (isin_filter ps df) (row_parameter x) (row_date x)))"
    unfolding px using r(2) by (simp add: group_row_def Let_def)
  show "row_units x = units (hd (day_group (isin_filter ps df) (row_parameter x) (row_date x)))"
    unfolding px using r(2) by (simp add: group_row_def Let_def)
qed

lemma filter_unique:
  "distinct (map f xs) \<Longrightarrow> x \<in> set xs \<Longrightarrow> filter (\<lambda>y. f y = f x) xs = [x]"
proof (induction xs)
  case Nil then show ?case by simp
next
  case (Cons a xs)
  show ?case
  proof (cases "a = x")
    case True
    have "f x \<notin> f ` set xs" using Cons.prems(1) True by simp
    then have "\<forall>y \<in> set xs. f y \<noteq> f x" by (metis imageI)
    then have "filter (\<lambda>y. f y = f x) xs = []" by (simp add: filter_empty_conv)
    with True show ?thesis by simp
  next
    case False
    with Cons.prems have "x \<in> set xs" by simp
    moreover have "f a \<noteq> f x" using Cons.prems(1) \<open>x \<in> set xs\<close> by auto
    ultimately show ?thesis using Cons by simp
  qed
qed

lemma day_group_single:
  assumes "distinct (map day_key df)" "r \<in> set df"
  shows "day_group df (parameter r) (datetime r div 86400) = [r]"
proof -
  have "day_group df (parameter r) (datetime r div 86400) = filter (\<lambda>y. day_key y = day_key r) df"
    by (simp add: day_group_def day_key_def)
  then show ?thesis using filter_unique [OF assms] by simp
qed

lemma group_row_single:
  assumes "distinct (map day_key df)" "r \<in> set df"
  shows "group_row df r = daily_of r"
  by (simp add: group_row_def day_group_single [OF assms] daily_of_def)

lemma distinct_day_key_filter:
  "distinct (map day_key df) \<Longrightarrow> distinct (map day_key (isin_filter ps df))"
  by (auto simp: isin_filter_def distinct_map_filter split: option.splits)

lemma length_rows_aggregate_data:
  "length (rows (aggregate_data df ps)) = length (group_keys (isin_filter ps df))"
  using arg_cong [OF keys_rows_aggregate_data, of length df ps] by simp

lemma distinct_group_key:
  assumes "distinct (map day_key df)"
  shows "distinct (map group_key df)"
proof -
  have "inj_on group_key (set df)"
    using assms by (auto simp: inj_on_def group_key_eq_iff distinct_map)
  moreover have "distinct df" using assms by (simp add: distinct_map)
  ultimately show ?thesis by (simp add: distinct_map)
qed

text \<open>
  aggregate_data_single_readings. On a collection with at most one reading for each parameter and calendar day,
  aggregation returns one row for each reading (that passes the allow-list), with the
  value and the unit of the reading unchanged.
\<close>

theorem aggregate_data_single_readings:
  assumes "distinct (map day_key df)"
  shows "set (rows (aggregate_data df ps)) = daily_of ` set (isin_filter ps df)
       \<and> length (rows (aggregate_data df ps)) = length (isin_filter ps df)
       \<and> set (rows (aggregate_data df None)) = daily_of ` set df"
proof -
  have d: "distinct (map day_key (isin_filter ps df))"
    using assms by (rule distinct_day_key_filter)
  have "set (rows (aggregate_data df ps)) = daily_of ` set (isin_filter ps df)"
    unfolding rows_aggregate_data using group_row_single [OF d] by (auto intro!: image_cong)
  moreover have "length (rows (aggregate_data df ps)) = length (isin_filter ps df)"
    unfolding length_rows_aggregate_data group_keys_def
    using distinct_group_key [OF d] by (simp add: distinct_remdups_id)
  moreover have "set (rows (aggregate_data df None)) = daily_of ` set df"
    unfolding rows_aggregate_data using group_row_single [OF assms]
    by (auto simp: isin_filter_def intro!: image_cong)
  ultimately show ?thesis by blast
qed

lemma process_location_all_data:
  "all_data (process_location W s e ps p st) = all_data st @ produced W s e ps p"
  by (simp add: process_location_def produced_def Let_def split: sum.splits)


lemma main_loop_all_data:
  "all_data (main_loop W s e ps pairs st) = all_data st @ concat (map (produced W s e ps) pairs)"
  by (induction pairs arbitrary: st) (simp_all add: process_location_all_data)


lemma rows_pd_concat: "rows (pd_concat fs) = concat (map rows fs)"
  by (simp add: pd_concat_def)


lemma air_quality_run_returns:
  assumes "air_quality_run W bbs locs sd ed ps = Inr r"
  obtains s e where "strptime W sd = Some s" "strptime W ed = Some e"
    "trace r = main_loop W s e ps (zip bbs locs) \<lparr>all_data = [], queries = [], printed_failed = []\<rparr>"
    "rows (returned r) = concat (map rows (all_data (trace r)))"
  using assms
  by (auto simp: air_quality_run_def Let_def rows_pd_concat split: option.splits if_splits)



lemma str_nat_7: "str_nat 7 = ''7''"
  by (subst str_nat.simps) simp

lemma example_fetch:
  "fetch_sensor_data example_world [7] 19358 19358 =
     \<lparr>consolidated_df = [example_reading], failed_locations = []\<rparr>"
  by (simp add: fetch_sensor_data_def date_range_def upto.simps fetch_unit_def example_world_def
      str_nat_7 endswith_def Let_def)

lemma example_registry: "registry example_world b = Inr [7]"
  by (simp add: example_world_def)

lemma example_produced:
  "produced example_world 19358 19358 None ([20, 70, 30, 80], loc) =
     [\<lparr>columns = [''parameter'', ''value'', ''units'', ''date'', ''location''],
       rows = [\<lparr>row_parameter = ''pm25'', row_value = 10, row_units = ''ug/m3'',
                row_date = 19358, row_location = loc\<rparr>]\<rparr>]"
  by (simp add: produced_def bbox_openaq_format_def index_def example_fetch Let_def
        aggregate_data_def isin_filter_def group_keys_def group_key_def day_floor_def
        List.map_filter_simps agg_row_def group_of_def mean_def first_def dt_date_def example_reading_def
        set_location_def tag_def daily_row.extend_def example_registry)

lemma example_strptime: "strptime example_world ''2023-01-01'' = Some 19358"
  by (simp add: example_world_def)

lemma triple_tag: "triple (tag l x) = (l, row_date x, row_parameter x)"
  by (simp add: triple_def tag_def daily_row.extend_def)

lemma produced_triples:
  "distinct (map triple (concat (map rows (produced W s e ps p))))"
  "\<forall>t \<in> set (map triple (concat (map rows (produced W s e ps p)))). fst t = snd p"
proof -
  have d: "distinct (map (\<lambda>x. (snd p, row_date x, row_parameter x)) (rows (aggregate_data df ps)))" for df
  proof -
    have "map (\<lambda>x. (snd p, row_date x, row_parameter x)) (rows (aggregate_data df ps)) =
          map (\<lambda>k. (snd p, snd k, fst k)) (map (\<lambda>x. (row_parameter x, row_date x)) (rows (aggregate_data df ps)))"
      by simp
    moreover have "inj (\<lambda>k::string \<times> int. (snd p, snd k, fst k))" by (auto simp: inj_on_def)
    ultimately show ?thesis
      using distinct_keys_rows [of df ps] by (simp only: distinct_map) (auto intro: inj_on_subset)
  qed
  show "distinct (map triple (concat (map rows (produced W s e ps p))))"
    using d by (auto simp: produced_def set_location_def Let_def comp_def triple_tag split: sum.splits)
  show "\<forall>t \<in> set (map triple (concat (map rows (produced W s e ps p)))). fst t = snd p"
    by (auto simp: produced_def set_location_def Let_def triple_tag split: sum.splits)
qed

lemma distinct_concat_tagged:
  assumes "\<forall>p \<in> set ps. distinct (f p)"
    and "\<forall>p \<in> set ps. \<forall>t \<in> set (f p). fst t = g p"
    and "distinct (map g ps)"
  shows "distinct (concat (map f ps))"
  using assms
proof (induction ps)
  case Nil
  then show ?case by simp
next
  case (Cons p ps)
  have ih: "distinct (concat (map f ps))" using Cons by simp
  have dp: "distinct (f p)" using Cons.prems(1) by simp
  have "set (f p) \<inter> set (concat (map f ps)) = {}"
  proof (rule ccontr)
    assume "\<not> ?thesis"
    then obtain t q where t: "t \<in> set (f p)" "q \<in> set ps" "t \<in> set (f q)" by auto
    have "fst t = g p" using Cons.prems(2) t(1) by simp
    moreover have "fst t = g q" using Cons.prems(2) t(2,3) by simp
    moreover have "g p \<notin> g ` set ps" using Cons.prems(3) by simp
    ultimately show False using t(2) by (metis imageI)
  qed
  with ih dp show ?case by simp
qed

lemma triples_concat:
  "map triple (concat (map rows (concat (map F pairs)))) =
   concat (map (\<lambda>p. map triple (concat (map rows (F p)))) pairs)"
  by (induction pairs) simp_all

lemma loop_triples:
  assumes "distinct (map snd pairs)"
  shows "distinct (map triple (concat (map rows (concat (map (produced W s e ps) pairs)))))"
  unfolding triples_concat
proof (rule distinct_concat_tagged [where g = snd])
  show "\<forall>p \<in> set pairs. distinct (map triple (concat (map rows (produced W s e ps p))))"
    using produced_triples(1) by blast
  show "\<forall>p \<in> set pairs. \<forall>t \<in> set (map triple (concat (map rows (produced W s e ps p)))). fst t = snd p"
    using produced_triples(2) by blast
  show "distinct (map snd pairs)" by (rule assms)
qed

lemma map_snd_zip_take: "map snd (zip xs ys) = take (length xs) ys"
  by (induction xs arbitrary: ys) (auto simp: zip_Cons1 split: list.splits)

text \<open>
  distinct_triples, amended: when the requested location names are pairwise distinct, the rows of the
  result have pairwise distinct triples of location, date and parameter.
\<close>

theorem distinct_triples:
  assumes "distinct locations"
    and "air_quality_run W bounding_boxes locations start_date end_date ps = Inr r"
  shows "distinct (map triple (rows (returned r)))"
proof -
  have d: "distinct (map snd (zip bounding_boxes locations))"
    using assms(1) by (simp add: map_snd_zip_take)
  from assms(2) obtain s e where
    tr: "trace r = main_loop W s e ps (zip bounding_boxes locations)
           \<lparr>all_data = [], queries = [], printed_failed = []\<rparr>"
    and rw: "rows (returned r) = concat (map rows (all_data (trace r)))"
    by (rule air_quality_run_returns)
  have "all_data (trace r) = concat (map (produced W s e ps) (zip bounding_boxes locations))"
    unfolding tr by (simp add: main_loop_all_data)
  then show ?thesis
    unfolding rw using loop_triples [OF d] by simp
qed

lemma example_run_one:
  "air_quality_run example_world [[20, 70, 30, 80]] [''Delhi''] ''2023-01-01'' ''2023-01-01'' None =
   Inr \<lparr>returned =
          \<lparr>columns = [''parameter'', ''value'', ''units'', ''date'', ''location''],
           rows = [\<lparr>row_parameter = ''pm25'', row_value = 10, row_units = ''ug/m3'',
                    row_date = 19358, row_location = ''Delhi''\<rparr>]\<rparr>,
        trace = main_loop example_world 19358 19358 None [([20, 70, 30, 80], ''Delhi'')]
                  \<lparr>all_data = [], queries = [], printed_failed = []\<rparr>\<rparr>"
  by (simp add: air_quality_run_def example_strptime Let_def main_loop_all_data process_location_all_data example_produced
      pd_concat_def)

text \<open>
  C4. The result is meant to have the columns date, parameter, unit, value, location.
  With one reading found, the returned frame has the columns parameter, value, units,
  date, location: the unit column is called \<open>units\<close>, and no column \<open>unit\<close> exists.
\<close>

theorem populated_frame_columns:
  "(case air_quality_run example_world [[20, 70, 30, 80]] [''Delhi''] ''2023-01-01'' ''2023-01-01'' None of
      Inl e \<Rightarrow> False
    | Inr r \<Rightarrow>
        rows (returned r) \<noteq> [] \<and>
        columns (returned r) = [''parameter'', ''value'', ''units'', ''date'', ''location''] \<and>
        ''unit'' \<notin> set (columns (returned r)))"
  by (simp add: example_run_one)

text \<open>
  distinct_triples, as stated: the rows of the result have pairwise distinct triples of location, date
  and parameter. With the same location name requested twice, each pass appends its rows
  and the concatenation keeps both.
\<close>

theorem duplicate_triples_counterexample:
  "\<not> distinct [''Delhi'', ''Delhi''] \<and>
   (case air_quality_run example_world [[20, 70, 30, 80], [20, 70, 30, 80]] [''Delhi'', ''Delhi'']
           ''2023-01-01'' ''2023-01-01'' None of
      Inl e \<Rightarrow> False
    | Inr r \<Rightarrow>
        map triple (rows (returned r)) =
          [(''Delhi'', 19358, ''pm25''), (''Delhi'', 19358, ''pm25'')] \<and>
        \<not> distinct (map triple (rows (returned r))))"
  by (simp add: air_quality_run_def example_strptime Let_def main_loop_all_data process_location_all_data example_produced
      pd_concat_def triple_def)

theorem distinct_triples_witness:
  "distinct [''Delhi'', ''Agra''] \<and>
   (case air_quality_run example_world [[20, 70, 30, 80], [20, 70, 30, 80]] [''Delhi'', ''Agra'']
           ''2023-01-01'' ''2023-01-01'' None of
      Inl e \<Rightarrow> False
    | Inr r \<Rightarrow> distinct (map triple (rows (returned r))))"
proof -
  obtain r where r: "air_quality_run example_world [[20, 70, 30, 80], [20, 70, 30, 80]]
      [''Delhi'', ''Agra''] ''2023-01-01'' ''2023-01-01'' None = Inr r"
    by (simp add: air_quality_run_def example_strptime Let_def)
  have d: "distinct [''Delhi'', ''Agra'']" by simp
  show ?thesis using distinct_triples [OF d r] d by (simp add: r)
qed


theorem aggregate_data_groups_witness:
  "rows (aggregate_data
        [\<lparr>datetime = 1672531200, parameter = ''pm25'', reading_value = 10, units = ''ug/m3''\<rparr>,
         \<lparr>datetime = 1672574400, parameter = ''pm25'', reading_value = 20, units = ''ppm''\<rparr>] None) =
       [\<lparr>row_parameter = ''pm25'', row_value = (10 + 20) / 2, row_units = ''ug/m3'', row_date = 19358\<rparr>]"
  using aggregate_data_groups [of "[\<lparr>datetime = 1672531200, parameter = ''pm25'', reading_value = 10, units = ''ug/m3''\<rparr>,
         \<lparr>datetime = 1672574400, parameter = ''pm25'', reading_value = 20, units = ''ppm''\<rparr>]" None
         "''ug/m3''" "''ppm''"]
  by simp

theorem aggregate_data_single_readings_witness:
  "distinct (map day_key
      [\<lparr>datetime = 1672531200, parameter = ''pm25'', reading_value = 10, units = ''ug/m3''\<rparr>,
       \<lparr>datetime = 1672617600, parameter = ''pm25'', reading_value = 20, units = ''ug/m3''\<rparr>]) \<and>
   set (rows (aggregate_data
      [\<lparr>datetime = 1672531200, parameter = ''pm25'', reading_value = 10, units = ''ug/m3''\<rparr>,
       \<lparr>datetime = 1672617600, parameter = ''pm25'', reading_value = 20, units = ''ug/m3''\<rparr>] None)) =
     {\<lparr>row_parameter = ''pm25'', row_value = 10, row_units = ''ug/m3'', row_date = 19358\<rparr>,
      \<lparr>row_parameter = ''pm25'', row_value = 20, row_units = ''ug/m3'', row_date = 19359\<rparr>}"
proof -
  have d: "distinct (map day_key
      [\<lparr>datetime = 1672531200, parameter = ''pm25'', reading_value = 10, units = ''ug/m3''\<rparr>,
       \<lparr>datetime = 1672617600, parameter = ''pm25'', reading_value = 20, units = ''ug/m3''\<rparr>])"
    by (simp add: day_key_def)
  show ?thesis using aggregate_data_single_readings [OF d, of None] d by (simp add: daily_of_def isin_filter_def)
qed

subsection \<open>Retrieval of the sensor data\<close>

lemma download_keys_acc:
  "download_keys W suf keys acc =
     (acc @ fst (download_keys W suf keys []), snd (download_keys W suf keys []))"
proof (induction keys arbitrary: acc)
  case Nil
  then show ?case by simp
next
  case (Cons key keys)
  have ih1: "download_keys W suf keys (acc @ d) =
      ((acc @ d) @ fst (download_keys W suf keys []), snd (download_keys W suf keys []))" for d
    by (rule Cons.IH)
  have ih2: "download_keys W suf keys d =
      (d @ fst (download_keys W suf keys []), snd (download_keys W suf keys []))" for d
    by (rule Cons.IH)
  show ?case
  proof (cases "endswith key suf")
    case False
    then show ?thesis using ih2 [of acc] by simp
  next
    case True
    show ?thesis
    proof (cases "read_csv_gz W key")
      case (Inl e)
      with True show ?thesis by simp
    next
      case (Inr daily_df)
      with True show ?thesis using ih1 [of daily_df] ih2 [of daily_df] by simp
    qed
  qed
qed

lemma fetch_unit_acc:
  "fetch_unit W i d st =
     \<lparr>consolidated_df = consolidated_df st @ unit_data W (i, d),
      failed_locations = failed_locations st @ unit_failed W (i, d)\<rparr>"
proof -
  obtain df fl where st: "st = \<lparr>consolidated_df = df, failed_locations = fl\<rparr>"
    by (cases st) simp
  show ?thesis
    unfolding st unit_data_def unit_failed_def fetch_unit_def Let_def
    by (subst download_keys_acc) (simp split: sum.splits option.splits prod.splits)
qed

lemma date_loop_acc:
  "date_loop W i ds st =
     \<lparr>consolidated_df = consolidated_df st @ concat (map (\<lambda>d. unit_data W (i, d)) ds),
      failed_locations = failed_locations st @ concat (map (\<lambda>d. unit_failed W (i, d)) ds)\<rparr>"
  by (induction ds arbitrary: st) (simp_all add: fetch_unit_acc)

lemma location_loop_acc:
  "location_loop W ids ds st =
     \<lparr>consolidated_df = consolidated_df st @ concat (map (unit_data W) (List.product ids ds)),
      failed_locations = failed_locations st @ concat (map (unit_failed W) (List.product ids ds))\<rparr>"
  by (induction ids arbitrary: st) (simp_all add: date_loop_acc comp_def)

lemma unit_failed_cases: "unit_failed W (i, d) = [] \<or> unit_failed W (i, d) = [i]"
  by (simp add: unit_failed_def fetch_unit_def Let_def split: sum.splits option.splits prod.splits)

lemma process_location_printed:
  "printed_failed (process_location W s e ps p st) =
     printed_failed st @
       (case bbox_openaq_format (fst p) of
          Inl x \<Rightarrow> []
        | Inr b \<Rightarrow>
            (case registry W b of
               Inl x \<Rightarrow> []
             | Inr location_ids \<Rightarrow>
                 (if failed_locations (fetch_sensor_data W location_ids s e) = [] then []
                  else [failed_locations (fetch_sensor_data W location_ids s e)])))"
  by (simp add: process_location_def Let_def split: sum.splits)

lemma download_keys_fst:
  "fst (download_keys W suf keys []) =
     concat (map (file_rows W) (takeWhile (readable W) (filter (\<lambda>key. endswith key suf) keys)))"
proof (induction keys)
  case Nil
  then show ?case by simp
next
  case (Cons key keys)
  show ?case
  proof (cases "endswith key suf")
    case False
    then show ?thesis using Cons by simp
  next
    case True
    show ?thesis
    proof (cases "read_csv_gz W key")
      case (Inl e)
      with True show ?thesis by (simp add: readable_def)
    next
      case (Inr daily_df)
      have "download_keys W suf keys daily_df =
          (daily_df @ fst (download_keys W suf keys []), snd (download_keys W suf keys []))"
        by (rule download_keys_acc)
      with True Inr Cons show ?thesis by (simp add: readable_def file_rows_def)
    qed
  qed
qed

lemma download_keys_snd:
  "(snd (download_keys W suf keys []) = None) =
     (\<not> list_ex (\<lambda>key. \<not> readable W key) (filter (\<lambda>key. endswith key suf) keys))"
proof (induction keys)
  case Nil
  then show ?case by simp
next
  case (Cons key keys)
  show ?case
  proof (cases "endswith key suf")
    case False
    then show ?thesis using Cons by simp
  next
    case True
    show ?thesis
    proof (cases "read_csv_gz W key")
      case (Inl e)
      with True show ?thesis by (simp add: readable_def)
    next
      case (Inr daily_df)
      have "download_keys W suf keys daily_df =
          (daily_df @ fst (download_keys W suf keys []), snd (download_keys W suf keys []))"
        by (rule download_keys_acc)
      with True Inr Cons show ?thesis by (simp add: readable_def)
    qed
  qed
qed

lemma fetch_unit_empty:
  "fetch_unit W i d \<lparr>consolidated_df = [], failed_locations = []\<rparr> =
     (case list_objects_v2 W (archive_prefix W i d) of
        Inl e \<Rightarrow> \<lparr>consolidated_df = [], failed_locations = [i]\<rparr>
      | Inr None \<Rightarrow> \<lparr>consolidated_df = [], failed_locations = [i]\<rparr>
      | Inr (Some contents) \<Rightarrow>
          \<lparr>consolidated_df = fst (download_keys W (archive_suffix W d) contents []),
           failed_locations =
             (if snd (download_keys W (archive_suffix W d) contents []) = None then [] else [i])\<rparr>)"
  by (simp add: fetch_unit_def Let_def archive_prefix_def archive_suffix_def
      split: sum.splits option.splits prod.splits)

lemma unit_data_rows: "unit_data W u = unit_rows W (fst u) (snd u)"
  unfolding unit_data_def unit_rows_def fetch_unit_empty
  by (simp add: download_keys_fst day_files_def split: sum.splits option.splits)

lemma unit_failed_fails: "unit_failed W u = (if unit_fails W (fst u) (snd u) then [fst u] else [])"
  unfolding unit_failed_def unit_fails_def fetch_unit_empty
  by (simp add: download_keys_snd day_files_def split: sum.splits option.splits)

lemma concat_map_if: "concat (map (\<lambda>u. if P u then [f u] else []) xs) = map f (filter P xs)"
  by (induction xs) simp_all

text \<open>
  C5, amended. A failure or an absence of data in one unit of site and day does not stop
  the others: the returned readings are the concatenation, over every site and every day
  of the range, of the rows of the unit, and the list of failed sites holds, in order, the
  site of every unit whose listing raised, had no \<open>Contents\<close> or had a file of the day
  that could not be read. The list is printed when it is not empty (recorded in
  \<open>printed_failed\<close> of the pass), not returned; \<open>_run\<close> raises nothing but the ValueError of
  a date that does not parse.
\<close>

theorem fetch_sensor_data_isolates_units:
  "fetch_sensor_data W location_ids start_date end_date =
     \<lparr>consolidated_df =
        concat (map (\<lambda>u. unit_rows W (fst u) (snd u))
          (List.product location_ids (date_range start_date end_date))),
      failed_locations =
        map fst (filter (\<lambda>u. unit_fails W (fst u) (snd u))
          (List.product location_ids (date_range start_date end_date)))\<rparr>
   \<and> printed_failed (process_location W s e ps p st) =
       printed_failed st @
         (case bbox_openaq_format (fst p) of
            Inl x \<Rightarrow> []
          | Inr b \<Rightarrow>
              (case registry W b of
                 Inl x \<Rightarrow> []
               | Inr ids \<Rightarrow>
                   (if failed_locations (fetch_sensor_data W ids s e) = [] then []
                    else [failed_locations (fetch_sensor_data W ids s e)])))
   \<and> (air_quality_run W bounding_boxes locations sd ed ps = Inl ValueError
        \<or> (\<exists>r. air_quality_run W bounding_boxes locations sd ed ps = Inr r))"
proof (intro conjI)
  have d: "unit_data W = (\<lambda>u. unit_rows W (fst u) (snd u))"
    by (rule ext) (rule unit_data_rows)
  have f: "unit_failed W = (\<lambda>u. if unit_fails W (fst u) (snd u) then [fst u] else [])"
    by (rule ext) (rule unit_failed_fails)
  show "fetch_sensor_data W location_ids start_date end_date =
     \<lparr>consolidated_df =
        concat (map (\<lambda>u. unit_rows W (fst u) (snd u))
          (List.product location_ids (date_range start_date end_date))),
      failed_locations =
        map fst (filter (\<lambda>u. unit_fails W (fst u) (snd u))
          (List.product location_ids (date_range start_date end_date)))\<rparr>"
    by (simp add: fetch_sensor_data_def location_loop_acc d f concat_map_if)
  show "printed_failed (process_location W s e ps p st) =
       printed_failed st @
         (case bbox_openaq_format (fst p) of
            Inl x \<Rightarrow> []
          | Inr b \<Rightarrow>
              (case registry W b of
                 Inl x \<Rightarrow> []
               | Inr ids \<Rightarrow>
                   (if failed_locations (fetch_sensor_data W ids s e) = [] then []
                    else [failed_locations (fetch_sensor_data W ids s e)])))"
    by (rule process_location_printed)
  show "air_quality_run W bounding_boxes locations sd ed ps = Inl ValueError
        \<or> (\<exists>r. air_quality_run W bounding_boxes locations sd ed ps = Inr r)"
    by (simp add: air_quality_run_def Let_def split: option.splits)
qed

lemma str_nat_3: "str_nat 3 = ''3''"
  by (subst str_nat.simps) simp

theorem fetch_sensor_data_isolates_units_witness:
  "fetch_sensor_data example_world [3, 7] 19358 19358 =
     \<lparr>consolidated_df = [example_reading], failed_locations = [3]\<rparr>"
  using fetch_sensor_data_isolates_units [where W = example_world and location_ids = "[3, 7]"
      and start_date = 19358 and end_date = 19358]
  by (simp add: date_range_def upto.simps unit_rows_def unit_fails_def archive_prefix_def
      archive_suffix_def day_files_def readable_def file_rows_def example_world_def
      str_nat_3 str_nat_7 endswith_def)

text \<open>
  C5, as stated: the failed identifiers reach the caller with the partial results. A site
  with no listing (failed) and a site whose listing has no file for the day (not failed)
  give the caller the same returned frame; only the printed lists differ.
\<close>

theorem failed_sites_not_returned_counterexample:
  "(case (air_quality_run (example_world\<lparr>list_objects_v2 := \<lambda>p. Inr None\<rparr>)
            [[20, 70, 30, 80]] [''Delhi''] ''2023-01-01'' ''2023-01-01'' None,
          air_quality_run
            (example_world\<lparr>list_objects_v2 := \<lambda>p. Inr (Some
               [''records/csv.gz/locationid=7/year=2023/month=01/location-7-20230102.csv.gz''])\<rparr>)
            [[20, 70, 30, 80]] [''Delhi''] ''2023-01-01'' ''2023-01-01'' None) of
      (Inr ra, Inr rb) \<Rightarrow>
        returned ra = returned rb \<and>
        printed_failed (trace ra) = [[7]] \<and> printed_failed (trace rb) = []
    | _ \<Rightarrow> False)"
  by (simp add: air_quality_run_def example_world_def Let_def process_location_def
      bbox_openaq_format_def index_def fetch_sensor_data_def date_range_def upto.simps
      fetch_unit_def str_nat_7 endswith_def)

end
